theory Spec2Isabelle
  imports Complex_Main
begin

section \<open>Data model (types.ts)\<close>

text \<open>
  A JavaScript \<^verbatim>\<open>number\<close> is modelled as a real: the specification's data model
  declares a vector to be a pair of real numbers, and every statement below is about the
  arithmetic the code writes down, not about IEEE rounding.
\<close>

record Vector2 =
  x :: real
  y :: real

datatype AppMode = Kinematics | Vectors | Boat

text \<open>
  A simulation state is a JavaScript object. Its \<^verbatim>\<open>position\<close> is a reference to a
  \<^verbatim>\<open>Vector2\<close> object, which the boat branch of the animation loop writes in place,
  and its \<^verbatim>\<open>path\<close> is a reference to an array of such references, which the loop
  extends in place. Both are therefore addresses into a store. The velocity and
  acceleration objects are only ever replaced as a whole, never written through, so they
  are kept as values.
\<close>

record SimulationState =
  t :: real
  position :: nat
  velocity :: Vector2
  initialVelocity :: Vector2
  acceleration :: Vector2
  path :: nat

record SimulationConfig =
  scale :: real
  v0 :: Vector2
  a :: Vector2
  p0 :: Vector2
  boatHeading :: real
  riverWidth :: real
  riverVelocity :: real
  boatSpeed :: real
  showVelocity :: bool
  showComponents :: bool
  showAcceleration :: bool
  showTrace :: bool
  showShadowBalls :: bool

text \<open>\<^verbatim>\<open>DEFAULT_CONFIG\<close> of App.tsx.\<close>

definition DEFAULT_CONFIG :: SimulationConfig where
  "DEFAULT_CONFIG =
     \<lparr>scale = 20, v0 = \<lparr>x = 15, y = 0\<rparr>, a = \<lparr>x = 0, y = - 98 / 10\<rparr>, p0 = \<lparr>x = 0, y = 0\<rparr>,
      boatHeading = 90, riverWidth = 50, riverVelocity = 3, boatSpeed = 4,
      showVelocity = True, showComponents = True, showAcceleration = False,
      showTrace = True, showShadowBalls = False\<rparr>"

section \<open>The component SimulationCanvas\<close>

datatype DragTarget = TargetPan | TargetBall | TargetVector1 | TargetVector2

datatype Cursor = CursorDefault | CursorGrab | CursorGrabbing

text \<open>
  The refs and React state of one mounted \<^verbatim>\<open>SimulationCanvas\<close>, together with the
  part of the JavaScript heap it owns: \<open>vecs\<close> holds the \<^verbatim>\<open>Vector2\<close> objects,
  \<open>arrs\<close> the arrays, \<open>objs\<close> the state objects, and \<open>fresh\<close> is the next unused
  address. \<open>stateRef\<close> is the address in \<^verbatim>\<open>stateRef.current\<close>. \<open>pan\<close> stands for both
  the React state \<^verbatim>\<open>pan\<close> and \<^verbatim>\<open>panRef.current\<close>, which an effect makes equal after
  every render. \<open>published\<close> lists the arguments of the calls of \<^verbatim>\<open>onUpdateState\<close>,
  oldest first: each is the address of the object that was handed to the host.
\<close>

record Canvas =
  vecs :: "nat \<Rightarrow> Vector2"
  arrs :: "nat \<Rightarrow> nat list"
  objs :: "nat \<Rightarrow> SimulationState"
  fresh :: nat
  stateRef :: nat
  lastFrameTime :: real
  lastUiUpdateRef :: real
  pan :: Vector2
  isDragging :: bool
  dragTarget :: "DragTarget option"
  lastMouseRef :: Vector2
  cursor :: Cursor
  published :: "nat list"

text \<open>What a reader of the store sees.\<close>

definition live :: "Canvas \<Rightarrow> SimulationState" where
  "live c = objs c (stateRef c)"

definition positionOf :: "Canvas \<Rightarrow> Vector2" where
  "positionOf c = vecs c (position (live c))"

definition pathRefs :: "Canvas \<Rightarrow> nat list" where
  "pathRefs c = arrs c (path (live c))"

definition pathOf :: "Canvas \<Rightarrow> Vector2 list" where
  "pathOf c = map (vecs c) (pathRefs c)"

text \<open>
  The content of the state object at address \<open>r\<close>, as the host reads it: time, position,
  velocity, initial velocity, acceleration and the points of the path.
\<close>

definition observe ::
  "Canvas \<Rightarrow> nat \<Rightarrow> real \<times> Vector2 \<times> Vector2 \<times> Vector2 \<times> Vector2 \<times> Vector2 list" where
  "observe c r =
     (t (objs c r), vecs c (position (objs c r)), velocity (objs c r),
      initialVelocity (objs c r), acceleration (objs c r),
      map (vecs c) (arrs c (path (objs c r))))"

text \<open>
  The initial values of the refs and of the React state (the \<^verbatim>\<open>useRef\<close> and
  \<^verbatim>\<open>useState\<close> calls at the head of the component). The initial state object
  shares \<^verbatim>\<open>config.p0\<close> between its position and its path.
\<close>

definition mount :: "SimulationConfig \<Rightarrow> Canvas" where
  "mount config =
     \<lparr>vecs = (\<lambda>_. \<lparr>x = 0, y = 0\<rparr>)(0 := p0 config),
      arrs = (\<lambda>_. [])(1 := [0]),
      objs = (\<lambda>_. \<lparr>t = 0, position = 0, velocity = v0 config, initialVelocity = v0 config,
                    acceleration = a config, path = 1\<rparr>),
      fresh = 3, stateRef = 2, lastFrameTime = 0, lastUiUpdateRef = 0,
      pan = \<lparr>x = 50, y = 0\<rparr>, isDragging = False, dragTarget = None,
      lastMouseRef = \<lparr>x = 0, y = 0\<rparr>, cursor = CursorDefault, published = []\<rparr>"

subsection \<open>Reset (resetSimulation)\<close>

text \<open>
  \<^verbatim>\<open>startPos\<close> is one object, stored both as the position and as the only element
  of the new path array. In boat mode it is a new object; otherwise it is the object
  \<^verbatim>\<open>config.p0\<close>, which no code writes through while the state refers to it, and which
  is given an address of its own here. The live state object itself, not a copy, is
  passed to \<^verbatim>\<open>onUpdateState\<close>.
\<close>

definition resetSimulation :: "AppMode \<Rightarrow> SimulationConfig \<Rightarrow> Canvas \<Rightarrow> Canvas" where
  "resetSimulation mode config c =
     (let startPos = (if mode = Boat then \<lparr>x = 0, y = 0\<rparr> else p0 config);
          vBoatX = boatSpeed config * cos (boatHeading config * pi / 180);
          vBoatY = boatSpeed config * sin (boatHeading config * pi / 180);
          initialV = (if mode = Boat then \<lparr>x = vBoatX + riverVelocity config, y = vBoatY\<rparr>
                      else v0 config);
          pa = fresh c; aa = fresh c + 1; sa = fresh c + 2
      in c\<lparr>vecs := (vecs c)(pa := startPos),
            arrs := (arrs c)(aa := [pa]),
            objs := (objs c)(sa := \<lparr>t = 0, position = pa, velocity = initialV,
                                    initialVelocity = initialV, acceleration = a config,
                                    path = aa\<rparr>),
            fresh := fresh c + 3,
            stateRef := sa,
            lastFrameTime := 0,
            published := published c @ [sa]\<rparr>)"

subsection \<open>Viewport transform (getW2S, getS2W)\<close>

definition getW2S :: "real \<Rightarrow> real \<Rightarrow> Vector2 \<Rightarrow> real \<Rightarrow> Vector2" where
  "getW2S wx wy p s = \<lparr>x = x p + wx * s, y = y p - wy * s\<rparr>"

definition getS2W :: "real \<Rightarrow> real \<Rightarrow> Vector2 \<Rightarrow> real \<Rightarrow> Vector2" where
  "getS2W sx sy p s = \<lparr>x = (sx - x p) / s, y = (y p - sy) / s\<rparr>"

subsection \<open>Animation loop (animate)\<close>

text \<open>
  The time step of a frame: \<^verbatim>\<open>if (!lastFrameTime.current) lastFrameTime.current = time\<close>,
  then the difference in seconds, capped at 0.1.
\<close>

definition frameStep :: "real \<Rightarrow> real \<Rightarrow> real" where
  "frameStep lastTime time =
     min ((time - (if lastTime = 0 then time else lastTime)) / 1000) (1 / 10)"

text \<open>The branch \<^verbatim>\<open>mode === AppMode.Boat\<close>: it writes into the position object.\<close>

definition stepBoat :: "SimulationConfig \<Rightarrow> real \<Rightarrow> Canvas \<Rightarrow> Canvas" where
  "stepBoat config dt c =
     (let s = live c; pr = position s; p = vecs c pr in
      if y p \<ge> riverWidth config then
        c\<lparr>vecs := (vecs c)(pr := p\<lparr>y := riverWidth config\<rparr>),
          objs := (objs c)(stateRef c := s\<lparr>velocity := \<lparr>x = 0, y = 0\<rparr>\<rparr>)\<rparr>
      else
        (let vBoatX = boatSpeed config * cos (boatHeading config * pi / 180);
             vBoatY = boatSpeed config * sin (boatHeading config * pi / 180);
             vx = vBoatX + riverVelocity config;
             vy = vBoatY;
             hit = (y p + vy * dt \<ge> riverWidth config);
             nextX = (if hit \<and> vy > 0
                      then x p + vx * min dt (max 0 ((riverWidth config - y p) / vy))
                      else x p + vx * dt);
             nextY = (if hit then riverWidth config else y p + vy * dt);
             vel = (if hit then \<lparr>x = 0, y = 0\<rparr> else \<lparr>x = vx, y = vy\<rparr>);
             newT = (if y p < riverWidth config then t s + dt else t s)
         in c\<lparr>vecs := (vecs c)(pr := \<lparr>x = nextX, y = nextY\<rparr>),
              objs := (objs c)(stateRef c := s\<lparr>t := newT, velocity := vel\<rparr>)\<rparr>))"

text \<open>The branch \<^verbatim>\<open>mode === AppMode.Kinematics\<close>: it stores a new position object.\<close>

definition stepKinematics :: "SimulationConfig \<Rightarrow> real \<Rightarrow> Canvas \<Rightarrow> Canvas" where
  "stepKinematics config dt c =
     (let s = live c;
          newTime = t s + dt;
          vx = x (v0 config) + x (a config) * newTime;
          vy = y (v0 config) + y (a config) * newTime;
          px = x (p0 config) + x (v0 config) * newTime + (1 / 2) * x (a config) * newTime * newTime;
          py = y (p0 config) + y (v0 config) * newTime + (1 / 2) * y (a config) * newTime * newTime
      in c\<lparr>vecs := (vecs c)(fresh c := \<lparr>x = px, y = py\<rparr>),
            objs := (objs c)(stateRef c :=
                       s\<lparr>t := newTime, velocity := \<lparr>x = vx, y = vy\<rparr>, position := fresh c\<rparr>),
            fresh := fresh c + 1\<rparr>)"

text \<open>Distance between two points, as \<^verbatim>\<open>Math.sqrt(dx*dx + dy*dy)\<close>.\<close>

definition distance :: "Vector2 \<Rightarrow> Vector2 \<Rightarrow> real" where
  "distance u v = sqrt ((x u - x v) * (x u - x v) + (y u - y v) * (y u - y v))"

text \<open>\<^verbatim>\<open>path.push({ ...position })\<close>: a copy of the position object goes into the array.\<close>

definition pushPosition :: "Canvas \<Rightarrow> Canvas" where
  "pushPosition c =
     c\<lparr>vecs := (vecs c)(fresh c := positionOf c),
       arrs := (arrs c)(path (live c) := pathRefs c @ [fresh c]),
       fresh := fresh c + 1\<rparr>"

text \<open>
  The block \<^verbatim>\<open>// Record Path\<close>. \<^verbatim>\<open>lastP\<close> is \<^verbatim>\<open>undefined\<close> exactly when the array
  is empty.
\<close>

definition recordPath :: "Canvas \<Rightarrow> Canvas" where
  "recordPath c =
     (if pathRefs c \<noteq> [] then
        (if distance (positionOf c) (vecs c (last (pathRefs c))) > 1 / 10
         then pushPosition c else c)
      else pushPosition c)"

text \<open>
  The throttled call \<^verbatim>\<open>onUpdateState({ ...stateRef.current })\<close>: a new state object
  with the same field values, hence the same position and path references.
\<close>

definition publish :: "real \<Rightarrow> Canvas \<Rightarrow> Canvas" where
  "publish time c =
     (if time - lastUiUpdateRef c > 100 then
        c\<lparr>objs := (objs c)(fresh c := live c),
          fresh := fresh c + 1,
          published := published c @ [fresh c],
          lastUiUpdateRef := time\<rparr>
      else c)"

text \<open>
  One call of \<^verbatim>\<open>animate(time)\<close>. Rendering has no effect on the state, and the
  request for the next frame is the caller's supply of the next \<open>time\<close>.
\<close>

definition animate :: "AppMode \<Rightarrow> SimulationConfig \<Rightarrow> real \<Rightarrow> Canvas \<Rightarrow> Canvas" where
  "animate mode config time c =
     (let dt = frameStep (lastFrameTime c) time;
          c1 = c\<lparr>lastFrameTime := time\<rparr>;
          c2 = (case mode of
                  Boat \<Rightarrow> stepBoat config dt c1
                | Kinematics \<Rightarrow> stepKinematics config dt c1
                | Vectors \<Rightarrow> c1)
      in publish time (recordPath c2))"

text \<open>A run of frames, and the time steps the frames of a run take.\<close>

definition frames :: "AppMode \<Rightarrow> SimulationConfig \<Rightarrow> real list \<Rightarrow> Canvas \<Rightarrow> Canvas" where
  "frames mode config stamps c = foldl (\<lambda>c' time. animate mode config time c') c stamps"

fun frameSteps :: "real \<Rightarrow> real list \<Rightarrow> real list" where
  "frameSteps lastTime [] = []"
| "frameSteps lastTime (time # stamps) = frameStep lastTime time # frameSteps time stamps"

subsection \<open>Pointer and wheel handlers\<close>

record MouseEvent =
  clientX :: real
  clientY :: real
  deltaY :: real

text \<open>
  The bounding rectangle of the canvas element, \<open>None\<close> when there is no canvas
  (\<^verbatim>\<open>if (!rect) return\<close>).
\<close>

record DOMRect =
  rectLeft :: real
  rectTop :: real

text \<open>\<^verbatim>\<open>Math.round\<close>: the nearest integer, a tie going up.\<close>

definition Math_round :: "real \<Rightarrow> real" where
  "Math_round v = of_int \<lfloor>v + 1 / 2\<rfloor>"

definition Math_hypot :: "real \<Rightarrow> real \<Rightarrow> real" where
  "Math_hypot dx dy = sqrt (dx * dx + dy * dy)"

definition handleMouseDown ::
  "DOMRect option \<Rightarrow> MouseEvent \<Rightarrow> AppMode \<Rightarrow> SimulationConfig \<Rightarrow> bool \<Rightarrow> Canvas \<Rightarrow> Canvas" where
  "handleMouseDown rect e mode config isPlaying c =
     (case rect of
        None \<Rightarrow> c
      | Some r \<Rightarrow>
          (let mouseX = clientX e - rectLeft r;
               mouseY = clientY e - rectTop r;
               c1 = c\<lparr>lastMouseRef := \<lparr>x = mouseX, y = mouseY\<rparr>, isDragging := True\<rparr>;
               ballScreen = getW2S (x (positionOf c)) (y (positionOf c)) (pan c) (scale config)
           in if \<not> isPlaying \<and> mode = Kinematics
                 \<and> Math_hypot (mouseX - x ballScreen) (mouseY - y ballScreen) < 20
              then c1\<lparr>dragTarget := Some TargetBall, cursor := CursorGrabbing\<rparr>
              else c1\<lparr>dragTarget := Some TargetPan, cursor := CursorGrabbing\<rparr>))"

text \<open>
  \<^verbatim>\<open>handleMouseMove\<close> returns the configuration as \<^verbatim>\<open>setConfig\<close> leaves it. In the
  ball branch \<^verbatim>\<open>newPos\<close> is one new object, stored as the position and as the only
  element of a new path array.
\<close>

definition handleMouseMove ::
  "DOMRect option \<Rightarrow> MouseEvent \<Rightarrow> AppMode \<Rightarrow> SimulationConfig \<Rightarrow> Canvas
     \<Rightarrow> SimulationConfig \<times> Canvas" where
  "handleMouseMove rect e mode config c =
     (case rect of
        None \<Rightarrow> (config, c)
      | Some r \<Rightarrow>
          (let mouseX = clientX e - rectLeft r;
               mouseY = clientY e - rectTop r
           in if isDragging c then
                (let dx = mouseX - x (lastMouseRef c);
                     dy = mouseY - y (lastMouseRef c)
                 in if dragTarget c = Some TargetPan then
                      (config, c\<lparr>pan := \<lparr>x = x (pan c) + dx, y = y (pan c) + dy\<rparr>,
                                 lastMouseRef := \<lparr>x = mouseX, y = mouseY\<rparr>\<rparr>)
                    else if dragTarget c = Some TargetBall then
                      (let worldPos = getS2W mouseX mouseY (pan c) (scale config);
                           roundedX = Math_round (x worldPos * 2) / 2;
                           roundedY = Math_round (y worldPos * 2) / 2;
                           newPos = \<lparr>x = roundedX, y = roundedY\<rparr>
                       in (config\<lparr>p0 := newPos\<rparr>,
                           c\<lparr>vecs := (vecs c)(fresh c := newPos),
                             arrs := (arrs c)(fresh c + 1 := [fresh c]),
                             objs := (objs c)(stateRef c :=
                                        (live c)\<lparr>position := fresh c, path := fresh c + 1\<rparr>),
                             fresh := fresh c + 2,
                             lastMouseRef := \<lparr>x = mouseX, y = mouseY\<rparr>\<rparr>))
                    else (config, c\<lparr>lastMouseRef := \<lparr>x = mouseX, y = mouseY\<rparr>\<rparr>))
              else
                (let ballScreen =
                       getW2S (x (positionOf c)) (y (positionOf c)) (pan c) (scale config)
                 in if mode = Kinematics
                       \<and> Math_hypot (mouseX - x ballScreen) (mouseY - y ballScreen) < 20
                    then (config, c\<lparr>cursor := CursorGrab\<rparr>)
                    else (config, c\<lparr>cursor := CursorDefault\<rparr>))))"

definition handleMouseUp :: "Canvas \<Rightarrow> Canvas" where
  "handleMouseUp c = c\<lparr>isDragging := False, dragTarget := None, cursor := CursorDefault\<rparr>"

definition handleWheel ::
  "DOMRect option \<Rightarrow> MouseEvent \<Rightarrow> SimulationConfig \<Rightarrow> Canvas \<Rightarrow> SimulationConfig \<times> Canvas" where
  "handleWheel rect e config c =
     (case rect of
        None \<Rightarrow> (config, c)
      | Some r \<Rightarrow>
          (let mouseX = clientX e - rectLeft r;
               mouseY = clientY e - rectTop r;
               zoomFactor = (if deltaY e < 0 then 11 / 10 else 9 / 10);
               newScale = max 2 (min 200 (scale config * zoomFactor));
               worldUnderMouse = getS2W mouseX mouseY (pan c) (scale config);
               newPanX = mouseX - x worldUnderMouse * newScale;
               newPanY = mouseY + y worldUnderMouse * newScale
           in (config\<lparr>scale := newScale\<rparr>, c\<lparr>pan := \<lparr>x = newPanX, y = newPanY\<rparr>\<rparr>)))"

subsection \<open>Configuration changes (the effect on config.v0, config.a and the boat fields)\<close>

definition configChanged :: "AppMode \<Rightarrow> SimulationConfig \<Rightarrow> bool \<Rightarrow> Canvas \<Rightarrow> Canvas" where
  "configChanged mode config isPlaying c =
     (if \<not> isPlaying then
        (if mode = Vectors then resetSimulation mode config c
         else if mode = Boat \<and> t (live c) = 0 then resetSimulation mode config c
         else if mode = Kinematics \<and> t (live c) = 0 then
           c\<lparr>objs := (objs c)(stateRef c :=
                  (live c)\<lparr>velocity := v0 config, acceleration := a config\<rparr>)\<rparr>
         else c)
      else c\<lparr>objs := (objs c)(stateRef c := (live c)\<lparr>acceleration := a config\<rparr>)\<rparr>)"

subsection \<open>Histories of one component\<close>

text \<open>
  \<open>evolves c c'\<close>: the component gets from \<open>c\<close> to \<open>c'\<close> by frames, resets,
  configuration changes and pointer and wheel events, in any order, each with any
  arguments.
\<close>

inductive evolves :: "Canvas \<Rightarrow> Canvas \<Rightarrow> bool" where
  evolves_here: "evolves c c"
| evolves_animate: "evolves c c' \<Longrightarrow> evolves c (animate mode config time c')"
| evolves_reset: "evolves c c' \<Longrightarrow> evolves c (resetSimulation mode config c')"
| evolves_config: "evolves c c' \<Longrightarrow> evolves c (configChanged mode config isPlaying c')"
| evolves_down: "evolves c c' \<Longrightarrow> evolves c (handleMouseDown rect e mode config isPlaying c')"
| evolves_move: "evolves c c' \<Longrightarrow> evolves c (snd (handleMouseMove rect e mode config c'))"
| evolves_up: "evolves c c' \<Longrightarrow> evolves c (handleMouseUp c')"
| evolves_wheel: "evolves c c' \<Longrightarrow> evolves c (snd (handleWheel rect e config c'))"

text \<open>The spacing of a path: each point is at least 0.1 away from the one before it.\<close>

definition spaced :: "Vector2 list \<Rightarrow> bool" where
  "spaced ps = successively (\<lambda>u v. distance v u \<ge> 1 / 10) ps"

text \<open>
  What every history keeps true of the path: it is not empty, it is spaced, its points
  and the position are allocated, and the position object is an element of the path
  only as its single element (the situation a reset or a drag leaves).
\<close>

definition pathInv :: "Canvas \<Rightarrow> bool" where
  "pathInv c \<longleftrightarrow>
     pathRefs c \<noteq> [] \<and> (\<forall>r \<in> set (pathRefs c). r < fresh c) \<and> position (live c) < fresh c
     \<and> spaced (pathOf c)
     \<and> (position (live c) \<in> set (pathRefs c) \<longrightarrow> pathRefs c = [position (live c)])"


text \<open>The closed form of free motion, at the time the state holds.\<close>

definition closedForm :: "SimulationConfig \<Rightarrow> Canvas \<Rightarrow> bool" where
  "closedForm config c \<longleftrightarrow>
     positionOf c =
       \<lparr>x = x (p0 config) + x (v0 config) * t (live c) + (1 / 2) * x (a config) * t (live c) * t (live c),
        y = y (p0 config) + y (v0 config) * t (live c) + (1 / 2) * y (a config) * t (live c) * t (live c)\<rparr>
     \<and> velocity (live c) =
       \<lparr>x = x (v0 config) + x (a config) * t (live c),
        y = y (v0 config) + y (a config) * t (live c)\<rparr>"

section \<open>Scene renderer (drawBoatScene)\<close>

text \<open>
  The drawing calls of the boat scene as a list of shapes in drawing order, in screen
  coordinates; colours and line widths are left out.
\<close>

datatype DrawOp =
    FillRect real real real real
  | DashedLine Vector2 Vector2
  | Disc Vector2 real
  | Polyline "Vector2 list"
  | BoatGlyph Vector2 real
  | Arrow Vector2 Vector2 string

text \<open>\<^verbatim>\<open>drawArrow\<close> draws nothing when the arrow is shorter than two pixels.\<close>

definition drawArrow :: "Vector2 \<Rightarrow> real \<Rightarrow> real \<Rightarrow> string \<Rightarrow> DrawOp list" where
  "drawArrow origin dx dy label =
     (if sqrt (dx * dx + dy * dy) < 2 then []
      else [Arrow origin \<lparr>x = x origin + dx, y = y origin - dy\<rparr> label])"

definition drawBoatScene ::
  "real \<Rightarrow> real \<Rightarrow> SimulationConfig \<Rightarrow> Vector2 \<Rightarrow> Canvas \<Rightarrow> DrawOp list" where
  "drawBoatScene width height cfg p c =
     (let bankY1 = y (getW2S 0 0 p (scale cfg));
          bankY2 = y (getW2S 0 (riverWidth cfg) p (scale cfg));
          currentPos = positionOf c;
          isAtBank = (y currentPos \<ge> riverWidth cfg - 1 / 100);
          vy = boatSpeed cfg * sin (boatHeading cfg * pi / 180);
          vx = boatSpeed cfg * cos (boatHeading cfg * pi / 180) + riverVelocity cfg;
          timeToCross = (riverWidth cfg - y currentPos) / vy;
          landingX = x currentPos + vx * timeToCross;
          startScreen = getW2S (x currentPos) (y currentPos) p (scale cfg);
          endScreen = getW2S landingX (riverWidth cfg) p (scale cfg);
          pts = map (\<lambda>q. getW2S (x q) (y q) p (scale cfg)) (pathOf c);
          pos = getW2S (x currentPos) (y currentPos) p (scale cfg);
          vBoatRawX = boatSpeed cfg * cos (boatHeading cfg * pi / 180) * scale cfg;
          vBoatRawY = boatSpeed cfg * sin (boatHeading cfg * pi / 180) * scale cfg;
          vwX = riverVelocity cfg * scale cfg
      in [FillRect 0 bankY2 width (bankY1 - bankY2),
          FillRect 0 bankY1 width 12,
          FillRect 0 (bankY2 - 12) width 12]
         @ (if showTrace cfg \<and> vy > 1 / 10 \<and> \<not> isAtBank
            then [DashedLine startScreen endScreen, Disc endScreen 4] else [])
         @ (if showTrace cfg \<and> length pts > 1 then [Polyline pts, Disc (hd pts) 4] else [])
         @ [BoatGlyph pos (- boatHeading cfg * (pi / 180))]
         @ (if showVelocity cfg \<and> \<not> isAtBank
            then drawArrow pos vBoatRawX vBoatRawY ''v_boat''
                 @ drawArrow pos vwX 0 ''v_water''
                 @ drawArrow pos (vx * scale cfg) (vy * scale cfg) ''v_sum''
            else []))"

text \<open>The predictive dashed lines of a scene.\<close>

fun isDashedLine :: "DrawOp \<Rightarrow> bool" where
  "isDashedLine (DashedLine u v) = True"
| "isDashedLine _ = False"

definition predictiveLines :: "DrawOp list \<Rightarrow> DrawOp list" where
  "predictiveLines ops = filter isDashedLine ops"

section \<open>Concrete inputs\<close>

text \<open>A slow boat pointing almost straight upstream: speed 1 at 179 degrees.\<close>

definition shallowHeading :: SimulationConfig where
  "shallowHeading = DEFAULT_CONFIG\<lparr>boatSpeed := 1, boatHeading := 179\<rparr>"

text \<open>Frames 80 ms apart, the first at 1000 ms: \<open>n\<close> of them.\<close>

definition frames80 :: "nat \<Rightarrow> real list" where
  "frames80 n = map (\<lambda>k. 1000 + 80 * real k) [0..<n]"

text \<open>
  A state object at address \<open>r\<close> that is allocated and is not the live state object.
\<close>

definition detached :: "nat \<Rightarrow> Canvas \<Rightarrow> bool" where
  "detached r c \<longleftrightarrow> r < fresh c \<and> stateRef c < fresh c \<and> r \<noteq> stateRef c"



text \<open>The first two frames of a boat crossing after a reset, 100 ms apart.\<close>

definition boatFirstFrame :: Canvas where
  "boatFirstFrame = animate Boat DEFAULT_CONFIG 1000
     (resetSimulation Boat DEFAULT_CONFIG (mount DEFAULT_CONFIG))"

definition boatSecondFrame :: Canvas where
  "boatSecondFrame = animate Boat DEFAULT_CONFIG 1100 boatFirstFrame"

section \<open>Reading the store after each step\<close>

lemma live_publish [simp]: "live (publish time c) = live c"
  by (simp add: publish_def live_def)

lemma vecs_publish [simp]: "vecs (publish time c) = vecs c"
  by (simp add: publish_def)

lemma arrs_publish [simp]: "arrs (publish time c) = arrs c"
  by (simp add: publish_def)

lemma stateRef_publish [simp]: "stateRef (publish time c) = stateRef c"
  by (simp add: publish_def)

lemma lastFrameTime_publish [simp]: "lastFrameTime (publish time c) = lastFrameTime c"
  by (simp add: publish_def)

lemma positionOf_publish [simp]: "positionOf (publish time c) = positionOf c"
  by (simp add: positionOf_def)

lemma pathRefs_publish [simp]: "pathRefs (publish time c) = pathRefs c"
  by (simp add: pathRefs_def)

lemma live_pushPosition [simp]: "live (pushPosition c) = live c"
  by (simp add: pushPosition_def live_def)

lemma positionOf_pushPosition [simp]: "positionOf (pushPosition c) = positionOf c"
  by (simp add: pushPosition_def positionOf_def live_def)

lemma stateRef_pushPosition [simp]: "stateRef (pushPosition c) = stateRef c"
  by (simp add: pushPosition_def)

lemma lastFrameTime_pushPosition [simp]: "lastFrameTime (pushPosition c) = lastFrameTime c"
  by (simp add: pushPosition_def)

lemma live_recordPath [simp]: "live (recordPath c) = live c"
  by (simp add: recordPath_def)

lemma positionOf_recordPath [simp]: "positionOf (recordPath c) = positionOf c"
  by (simp add: recordPath_def)

lemma stateRef_recordPath [simp]: "stateRef (recordPath c) = stateRef c"
  by (simp add: recordPath_def)

lemma lastFrameTime_recordPath [simp]: "lastFrameTime (recordPath c) = lastFrameTime c"
  by (simp add: recordPath_def)

lemma lastFrameTime_animate [simp]: "lastFrameTime (animate mode config time c) = time"
  by (cases mode) (simp_all add: animate_def Let_def stepBoat_def stepKinematics_def)

lemma live_stepKinematics:
  "live (stepKinematics config dt c) =
     (live c)\<lparr>t := t (live c) + dt,
              velocity := \<lparr>x = x (v0 config) + x (a config) * (t (live c) + dt),
                           y = y (v0 config) + y (a config) * (t (live c) + dt)\<rparr>,
              position := fresh c\<rparr>"
  by (simp add: stepKinematics_def Let_def live_def)

lemma positionOf_stepKinematics:
  "positionOf (stepKinematics config dt c) =
     \<lparr>x = x (p0 config) + x (v0 config) * (t (live c) + dt)
            + (1 / 2) * x (a config) * (t (live c) + dt) * (t (live c) + dt),
      y = y (p0 config) + y (v0 config) * (t (live c) + dt)
            + (1 / 2) * y (a config) * (t (live c) + dt) * (t (live c) + dt)\<rparr>"
  by (simp add: stepKinematics_def Let_def live_def positionOf_def)

lemma live_lastFrameTime_update [simp]: "live (c\<lparr>lastFrameTime := l\<rparr>) = live c"
  by (simp add: live_def)

lemma live_animate_Kinematics:
  "live (animate Kinematics config time c) =
     (live c)\<lparr>t := t (live c) + frameStep (lastFrameTime c) time,
              velocity := \<lparr>x = x (v0 config) + x (a config) * (t (live c) + frameStep (lastFrameTime c) time),
                           y = y (v0 config) + y (a config) * (t (live c) + frameStep (lastFrameTime c) time)\<rparr>,
              position := fresh c\<rparr>"
  by (simp add: animate_def Let_def live_stepKinematics)

lemma positionOf_animate_Kinematics:
  "positionOf (animate Kinematics config time c) =
     (let newTime = t (live c) + frameStep (lastFrameTime c) time in
      \<lparr>x = x (p0 config) + x (v0 config) * newTime + (1 / 2) * x (a config) * newTime * newTime,
       y = y (p0 config) + y (v0 config) * newTime + (1 / 2) * y (a config) * newTime * newTime\<rparr>)"
  by (simp add: animate_def Let_def positionOf_stepKinematics)

lemma positionOf_lastFrameTime_update [simp]: "positionOf (c\<lparr>lastFrameTime := l\<rparr>) = positionOf c"
  by (simp add: positionOf_def)

lemma frames_Cons: "frames mode config (time # stamps) c = frames mode config stamps (animate mode config time c)"
  by (simp add: frames_def)

lemma frames_Nil: "frames mode config [] c = c"
  by (simp add: frames_def)

lemma frames_snoc: "frames mode config (stamps @ [time]) c = animate mode config time (frames mode config stamps c)"
  by (simp add: frames_def)

lemma live_stepBoat_at_bank:
  "y (positionOf c) \<ge> riverWidth config \<Longrightarrow>
     live (stepBoat config dt c) = (live c)\<lparr>velocity := \<lparr>x = 0, y = 0\<rparr>\<rparr>"
  by (simp add: stepBoat_def Let_def live_def positionOf_def)

lemma positionOf_stepBoat_at_bank:
  "y (positionOf c) \<ge> riverWidth config \<Longrightarrow>
     positionOf (stepBoat config dt c) = (positionOf c)\<lparr>y := riverWidth config\<rparr>"
  by (simp add: stepBoat_def Let_def live_def positionOf_def)

lemma live_stepBoat_afloat:
  "y (positionOf c) < riverWidth config \<Longrightarrow>
     live (stepBoat config dt c) =
       (let vx = boatSpeed config * cos (boatHeading config * pi / 180) + riverVelocity config;
            vy = boatSpeed config * sin (boatHeading config * pi / 180)
        in (live c)\<lparr>t := t (live c) + dt,
                    velocity := (if y (positionOf c) + vy * dt \<ge> riverWidth config
                                 then \<lparr>x = 0, y = 0\<rparr> else \<lparr>x = vx, y = vy\<rparr>)\<rparr>)"
  by (simp add: stepBoat_def Let_def live_def positionOf_def)

lemma positionOf_stepBoat_afloat:
  "y (positionOf c) < riverWidth config \<Longrightarrow>
     positionOf (stepBoat config dt c) =
       (let vx = boatSpeed config * cos (boatHeading config * pi / 180) + riverVelocity config;
            vy = boatSpeed config * sin (boatHeading config * pi / 180);
            hit = (y (positionOf c) + vy * dt \<ge> riverWidth config)
        in \<lparr>x = (if hit \<and> vy > 0
                 then x (positionOf c)
                        + vx * min dt (max 0 ((riverWidth config - y (positionOf c)) / vy))
                 else x (positionOf c) + vx * dt),
            y = (if hit then riverWidth config else y (positionOf c) + vy * dt)\<rparr>)"
  by (simp add: stepBoat_def Let_def live_def positionOf_def)

lemma live_animate_Boat:
  "live (animate Boat config time c) = live (stepBoat config (frameStep (lastFrameTime c) time) (c\<lparr>lastFrameTime := time\<rparr>))"
  by (simp add: animate_def Let_def)

lemma positionOf_animate_Boat:
  "positionOf (animate Boat config time c) = positionOf (stepBoat config (frameStep (lastFrameTime c) time) (c\<lparr>lastFrameTime := time\<rparr>))"
  by (simp add: animate_def Let_def)

lemma animate_Boat_at_bank:
  assumes "y (positionOf c) = riverWidth config"
  shows "t (live (animate Boat config time c)) = t (live c)"
    and "positionOf (animate Boat config time c) = positionOf c"
    and "velocity (live (animate Boat config time c)) = \<lparr>x = 0, y = 0\<rparr>"
  using assms
  by (simp_all add: live_animate_Boat positionOf_animate_Boat live_stepBoat_at_bank
      positionOf_stepBoat_at_bank)

lemma animate_Boat_arrived:
  assumes "y (positionOf (animate Boat config time c)) = riverWidth config"
  shows "velocity (live (animate Boat config time c)) = \<lparr>x = 0, y = 0\<rparr>"
proof (cases "y (positionOf c) \<ge> riverWidth config")
  case True
  then show ?thesis
    by (simp add: live_animate_Boat live_stepBoat_at_bank)
next
  case False
  with assms show ?thesis
    by (simp add: live_animate_Boat positionOf_animate_Boat live_stepBoat_afloat
        positionOf_stepBoat_afloat Let_def split: if_splits)
qed

lemma frames_Boat_at_bank:
  assumes "y (positionOf c) = riverWidth config"
  shows "t (live (frames Boat config stamps c)) = t (live c)
       \<and> positionOf (frames Boat config stamps c) = positionOf c
       \<and> (stamps \<noteq> [] \<longrightarrow> velocity (live (frames Boat config stamps c)) = \<lparr>x = 0, y = 0\<rparr>)"
  using assms
proof (induction stamps rule: rev_induct)
  case Nil
  then show ?case by (simp add: frames_Nil)
next
  case (snoc time stamps)
  then show ?case
    by (simp add: frames_snoc animate_Boat_at_bank)
qed

section \<open>Free motion\<close>

lemma closedForm_animate: "closedForm config (animate Kinematics config time c)"
  by (simp add: closedForm_def positionOf_animate_Kinematics live_animate_Kinematics Let_def)

lemma closedForm_reset: "closedForm config (resetSimulation Kinematics config c)"
  by (simp add: closedForm_def resetSimulation_def Let_def positionOf_def live_def)

lemma t_frames_Kinematics:
  "t (live (frames Kinematics config stamps c)) =
     t (live c) + sum_list (frameSteps (lastFrameTime c) stamps)"
  by (induction stamps arbitrary: c) (simp_all add: frames_Nil frames_Cons live_animate_Kinematics)

lemma closedForm_frames:
  "closedForm config c \<Longrightarrow> closedForm config (frames Kinematics config stamps c)"
  by (induction stamps arbitrary: c) (simp_all add: frames_Nil frames_Cons closedForm_animate)

text \<open>
  C1. In free-motion mode, after any finite sequence of frames from a reset, the state's
  time is the sum of the capped steps of the frames, and position and velocity are the
  closed forms p0 + v0 t + a t t / 2 and v0 + a t at that time, exactly: they depend on the
  frames only through that sum. In particular with p0 = (0, 0), v0 = (15, 0),
  a = (0, -9.8) and t = 1 the position is (15, -4.9) and the velocity (15, -9.8).
\<close>

theorem free_motion:
  "(let c = frames Kinematics config stamps (resetSimulation Kinematics config c0);
        tt = sum_list (frameSteps 0 stamps)
    in t (live c) = tt
     \<and> positionOf c =
         \<lparr>x = x (p0 config) + x (v0 config) * tt + (1 / 2) * x (a config) * tt * tt,
          y = y (p0 config) + y (v0 config) * tt + (1 / 2) * y (a config) * tt * tt\<rparr>
     \<and> velocity (live c) =
         \<lparr>x = x (v0 config) + x (a config) * tt, y = y (v0 config) + y (a config) * tt\<rparr>
     \<and> (p0 config = \<lparr>x = 0, y = 0\<rparr> \<and> v0 config = \<lparr>x = 15, y = 0\<rparr>
          \<and> a config = \<lparr>x = 0, y = - 98 / 10\<rparr> \<and> tt = 1
        \<longrightarrow> positionOf c = \<lparr>x = 15, y = - 49 / 10\<rparr> \<and> velocity (live c) = \<lparr>x = 15, y = - 98 / 10\<rparr>))"
proof -
  define c where "c = frames Kinematics config stamps (resetSimulation Kinematics config c0)"
  have tc: "t (live c) = sum_list (frameSteps 0 stamps)"
    unfolding c_def by (simp add: t_frames_Kinematics) (simp add: resetSimulation_def Let_def live_def)
  have "closedForm config c"
    unfolding c_def by (rule closedForm_frames) (rule closedForm_reset)
  with tc show ?thesis
    unfolding c_def [symmetric] by (simp add: closedForm_def Let_def)
qed

theorem free_motion_witness:
  "(let stamps = [1000, 1100, 1200, 1300, 1400, 1500, 1600, 1700, 1800, 1900, 2000];
        c = frames Kinematics DEFAULT_CONFIG stamps
              (resetSimulation Kinematics DEFAULT_CONFIG (mount DEFAULT_CONFIG))
    in sum_list (frameSteps 0 stamps) = 1 \<and> t (live c) = 1
       \<and> positionOf c = \<lparr>x = 15, y = - 49 / 10\<rparr> \<and> velocity (live c) = \<lparr>x = 15, y = - 98 / 10\<rparr>)"
  using free_motion [of DEFAULT_CONFIG "[1000, 1100, 1200, 1300, 1400, 1500, 1600, 1700, 1800, 1900, 2000]"
      "mount DEFAULT_CONFIG"]
  by (simp add: Let_def frameStep_def DEFAULT_CONFIG_def)

section \<open>Boat mode\<close>

text \<open>
  C2. In boat mode, once the position's y equals the river width, every later frame
  leaves the time and the position as they are and the velocity is (0, 0); from the
  first such frame on a frame changes none of the three. A state with y at the river
  width that a frame produced has velocity (0, 0) already.
\<close>

theorem boat_terminal:
  assumes "y (positionOf c) = riverWidth config" and "stamps \<noteq> []"
  shows "(let c' = frames Boat config stamps c in
            t (live c') = t (live c) \<and> positionOf c' = positionOf c
          \<and> velocity (live c') = \<lparr>x = 0, y = 0\<rparr>
          \<and> (\<forall>time. t (live (animate Boat config time c')) = t (live c')
                   \<and> positionOf (animate Boat config time c') = positionOf c'
                   \<and> velocity (live (animate Boat config time c')) = velocity (live c'))
          \<and> (\<forall>c0 time0. c = animate Boat config time0 c0 \<longrightarrow> velocity (live c) = \<lparr>x = 0, y = 0\<rparr>))"
proof -
  define c' where "c' = frames Boat config stamps c"
  have 1: "t (live c') = t (live c)" "positionOf c' = positionOf c"
    "velocity (live c') = \<lparr>x = 0, y = 0\<rparr>"
    using frames_Boat_at_bank [OF assms(1), of stamps] assms(2) by (simp_all add: c'_def)
  then have "y (positionOf c') = riverWidth config"
    using assms(1) by simp
  then have 2: "t (live (animate Boat config time c')) = t (live c')
      \<and> positionOf (animate Boat config time c') = positionOf c'
      \<and> velocity (live (animate Boat config time c')) = velocity (live c')" for time
    using 1 by (simp add: animate_Boat_at_bank)
  have 3: "velocity (live c) = \<lparr>x = 0, y = 0\<rparr>" if "c = animate Boat config time0 c0" for c0 time0
    using animate_Boat_arrived [of config time0 c0] assms(1) that by simp
  show ?thesis
    unfolding c'_def [symmetric] Let_def using 1 2 3 by blast
qed


lemma animate_Boat_afloat:
  assumes "y (positionOf c) < riverWidth config"
  shows "t (live (animate Boat config time c)) = t (live c) + frameStep (lastFrameTime c) time"
    and "positionOf (animate Boat config time c) =
       (let dt = frameStep (lastFrameTime c) time;
            vx = boatSpeed config * cos (boatHeading config * pi / 180) + riverVelocity config;
            vy = boatSpeed config * sin (boatHeading config * pi / 180);
            hit = (y (positionOf c) + vy * dt \<ge> riverWidth config)
        in \<lparr>x = (if hit \<and> vy > 0
                 then x (positionOf c)
                        + vx * min dt (max 0 ((riverWidth config - y (positionOf c)) / vy))
                 else x (positionOf c) + vx * dt),
            y = (if hit then riverWidth config else y (positionOf c) + vy * dt)\<rparr>)"
    and "velocity (live (animate Boat config time c)) =
       (let dt = frameStep (lastFrameTime c) time;
            vx = boatSpeed config * cos (boatHeading config * pi / 180) + riverVelocity config;
            vy = boatSpeed config * sin (boatHeading config * pi / 180)
        in if y (positionOf c) + vy * dt \<ge> riverWidth config
           then \<lparr>x = 0, y = 0\<rparr> else \<lparr>x = vx, y = vy\<rparr>)"
  using assms
  by (simp_all add: live_animate_Boat positionOf_animate_Boat live_stepBoat_afloat
      positionOf_stepBoat_afloat Let_def)

lemma reset_Boat_start:
  "positionOf (resetSimulation Boat config c) = \<lparr>x = 0, y = 0\<rparr>"
  "t (live (resetSimulation Boat config c)) = 0"
  "lastFrameTime (resetSimulation Boat config c) = 0"
  by (simp_all add: resetSimulation_def positionOf_def live_def Let_def)

lemma trig_90: "cos (90 * pi / 180) = 0" "sin (90 * pi / 180) = 1"
  by simp_all

theorem boat_terminal_witness:
  "(let config = DEFAULT_CONFIG\<lparr>riverWidth := 3 / 10\<rparr>;
        c = frames Boat config [1000, 1100] (resetSimulation Boat config (mount config));
        c' = frames Boat config [1116, 1133] c
    in y (positionOf c) = riverWidth config \<and> [1116, 1133] \<noteq> ([] :: real list)
     \<and> t (live c') = 1 / 10 \<and> positionOf c' = \<lparr>x = 9 / 40, y = 3 / 10\<rparr>
     \<and> velocity (live c') = \<lparr>x = 0, y = 0\<rparr>)"
proof -
  define config where "config = DEFAULT_CONFIG\<lparr>riverWidth := 3 / 10\<rparr>"
  define r where "r = resetSimulation Boat config (mount config)"
  define c1 where "c1 = animate Boat config 1000 r"
  define c where "c = animate Boat config 1100 c1"
  have cfg: "riverWidth config = 3 / 10" "boatSpeed config = 4" "boatHeading config = 90"
    "riverVelocity config = 3"
    by (simp_all add: config_def DEFAULT_CONFIG_def)
  have r: "positionOf r = \<lparr>x = 0, y = 0\<rparr>" "t (live r) = 0" "lastFrameTime r = 0"
    by (simp_all add: r_def reset_Boat_start)
  have c1: "positionOf c1 = \<lparr>x = 0, y = 0\<rparr>" "t (live c1) = 0" "lastFrameTime c1 = 1000"
    unfolding c1_def by (simp_all add: animate_Boat_afloat r cfg frameStep_def trig_90)
  have c: "positionOf c = \<lparr>x = 9 / 40, y = 3 / 10\<rparr>" "t (live c) = 1 / 10"
    unfolding c_def by (simp_all add: animate_Boat_afloat c1 cfg frameStep_def trig_90)
  have "y (positionOf c) = riverWidth config"
    by (simp add: c cfg)
  from boat_terminal [OF this, of "[1116, 1133]"] c this
  show ?thesis
    unfolding Let_def config_def [symmetric] frames_Cons frames_Nil r_def [symmetric]
      c1_def [symmetric] c_def [symmetric] by simp
qed

section \<open>Viewport properties\<close>

text \<open>
  C3. For every world point and every viewport with a scale in [2, 200], mapping the
  point to the screen and back gives the point itself, so the two differ by less than
  1e-6 on each axis.
\<close>

theorem transform_round_trip:
  assumes "2 \<le> s" and "s \<le> 200"
  shows "getS2W (x (getW2S wx wy p s)) (y (getW2S wx wy p s)) p s = \<lparr>x = wx, y = wy\<rparr>
    \<and> \<bar>x (getS2W (x (getW2S wx wy p s)) (y (getW2S wx wy p s)) p s) - wx\<bar> < 1 / 10 ^ 6
    \<and> \<bar>y (getS2W (x (getW2S wx wy p s)) (y (getW2S wx wy p s)) p s) - wy\<bar> < 1 / 10 ^ 6"
  using assms by (simp add: getW2S_def getS2W_def)

theorem transform_round_trip_witness:
  "(2::real) \<le> 20 \<and> (20::real) \<le> 200
   \<and> getS2W (x (getW2S 3 (- 7) \<lparr>x = 50, y = 400\<rparr> 20)) (y (getW2S 3 (- 7) \<lparr>x = 50, y = 400\<rparr> 20))
        \<lparr>x = 50, y = 400\<rparr> 20 = \<lparr>x = 3, y = - 7\<rparr>"
  using transform_round_trip [of 20 3 "- 7" "\<lparr>x = 50, y = 400\<rparr>"] by simp

text \<open>
  C4. A wheel event on the canvas, at a non-zero scale (at scale 0 the division of the
  inverse transform has no real value in JavaScript): the new scale is the old one times
  1.1 (deltaY negative) or 0.9, clamped to [2, 200]; the new pan is
  (ax - wx s', ay + wy s') for the world point (wx, wy) under the anchor before the zoom
  and the new scale s'; and the world point under the anchor after the zoom is the same
  point.
\<close>

theorem zoom_at_point:
  assumes "scale config \<noteq> 0"
  shows "(let mouseX = clientX e - rectLeft r; mouseY = clientY e - rectTop r;
             world = getS2W mouseX mouseY (pan c) (scale config);
             config' = fst (handleWheel (Some r) e config c);
             c' = snd (handleWheel (Some r) e config c)
         in scale config' = max 2 (min 200 (scale config * (if deltaY e < 0 then 11 / 10 else 9 / 10)))
          \<and> 2 \<le> scale config' \<and> scale config' \<le> 200
          \<and> pan c' = \<lparr>x = mouseX - x world * scale config', y = mouseY + y world * scale config'\<rparr>
          \<and> getS2W mouseX mouseY (pan c') (scale config') = world
          \<and> \<bar>x (getS2W mouseX mouseY (pan c') (scale config')) - x world\<bar> < 1 / 10 ^ 6
          \<and> \<bar>y (getS2W mouseX mouseY (pan c') (scale config')) - y world\<bar> < 1 / 10 ^ 6)"
  using assms by (simp add: handleWheel_def Let_def getS2W_def)

theorem zoom_at_point_witness:
  "scale DEFAULT_CONFIG \<noteq> 0
   \<and> scale (fst (handleWheel (Some \<lparr>rectLeft = 10, rectTop = 20\<rparr>)
                  \<lparr>clientX = 110, clientY = 220, deltaY = - 1\<rparr> DEFAULT_CONFIG (mount DEFAULT_CONFIG))) = 22
   \<and> pan (snd (handleWheel (Some \<lparr>rectLeft = 10, rectTop = 20\<rparr>)
                  \<lparr>clientX = 110, clientY = 220, deltaY = - 1\<rparr> DEFAULT_CONFIG (mount DEFAULT_CONFIG)))
       = \<lparr>x = 45, y = - 20\<rparr>"
  using zoom_at_point [of DEFAULT_CONFIG "\<lparr>clientX = 110, clientY = 220, deltaY = - 1\<rparr>"
      "\<lparr>rectLeft = 10, rectTop = 20\<rparr>" "mount DEFAULT_CONFIG"]
  by (simp add: Let_def DEFAULT_CONFIG_def mount_def getS2W_def)

section \<open>Ball drag\<close>

lemma Math_round_half:
  "\<exists>k::int. Math_round (v * 2) / 2 = of_int k / 2 \<and> \<bar>Math_round (v * 2) / 2 - v\<bar> \<le> 1 / 4"
proof -
  define w where "w = v * 2 + 1 / 2"
  have "of_int \<lfloor>w\<rfloor> \<le> w" and "w < of_int \<lfloor>w\<rfloor> + 1"
    by linarith+
  then have "\<bar>of_int \<lfloor>w\<rfloor> / 2 - v\<bar> \<le> 1 / 4"
    unfolding w_def by linarith
  then show ?thesis
    unfolding Math_round_def w_def by blast
qed

text \<open>
  C8. A pointer move on the canvas while the ball is dragged, at a non-zero scale (as for
  the wheel event): the pointer's screen position is mapped to the world by the inverse transform, each
  coordinate is rounded to the nearest multiple of 0.5, and the rounded point is the new
  p0 of the configuration, the state's position, and the only point of the path.
\<close>

theorem ball_drag:
  assumes "isDragging c" and "dragTarget c = Some TargetBall" and "scale config \<noteq> 0"
  shows "(let mouseX = clientX e - rectLeft r; mouseY = clientY e - rectTop r;
             world = getS2W mouseX mouseY (pan c) (scale config);
             newPos = \<lparr>x = Math_round (x world * 2) / 2, y = Math_round (y world * 2) / 2\<rparr>;
             config' = fst (handleMouseMove (Some r) e mode config c);
             c' = snd (handleMouseMove (Some r) e mode config c)
         in p0 config' = newPos \<and> positionOf c' = newPos \<and> pathOf c' = [newPos]
          \<and> (\<exists>k::int. x newPos = of_int k / 2) \<and> \<bar>x newPos - x world\<bar> \<le> 1 / 4
          \<and> (\<exists>k::int. y newPos = of_int k / 2) \<and> \<bar>y newPos - y world\<bar> \<le> 1 / 4)"
  using assms(1,2)
    Math_round_half [of "x (getS2W (clientX e - rectLeft r) (clientY e - rectTop r) (pan c) (scale config))"]
    Math_round_half [of "y (getS2W (clientX e - rectLeft r) (clientY e - rectTop r) (pan c) (scale config))"]
  by (simp add: handleMouseMove_def Let_def positionOf_def pathOf_def pathRefs_def live_def)

lemma reset_Kinematics_start:
  "positionOf (resetSimulation Kinematics config c) = p0 config"
  "pan (resetSimulation Kinematics config c) = pan c"
  by (simp_all add: resetSimulation_def positionOf_def live_def Let_def)

theorem ball_drag_witness:
  "(let c = handleMouseDown (Some \<lparr>rectLeft = 10, rectTop = 20\<rparr>)
              \<lparr>clientX = 60, clientY = 20, deltaY = 0\<rparr> Kinematics DEFAULT_CONFIG False
              (resetSimulation Kinematics DEFAULT_CONFIG (mount DEFAULT_CONFIG));
        move = handleMouseMove (Some \<lparr>rectLeft = 10, rectTop = 20\<rparr>)
              \<lparr>clientX = 133, clientY = - 25, deltaY = 0\<rparr> Kinematics DEFAULT_CONFIG c
    in isDragging c \<and> dragTarget c = Some TargetBall \<and> scale DEFAULT_CONFIG \<noteq> 0
     \<and> p0 (fst move) = \<lparr>x = 7 / 2, y = 5 / 2\<rparr> \<and> positionOf (snd move) = \<lparr>x = 7 / 2, y = 5 / 2\<rparr>
     \<and> pathOf (snd move) = [\<lparr>x = 7 / 2, y = 5 / 2\<rparr>])"
proof -
  define c where "c = handleMouseDown (Some \<lparr>rectLeft = 10, rectTop = 20\<rparr>)
              \<lparr>clientX = 60, clientY = 20, deltaY = 0\<rparr> Kinematics DEFAULT_CONFIG False
              (resetSimulation Kinematics DEFAULT_CONFIG (mount DEFAULT_CONFIG))"
  have c: "isDragging c" "dragTarget c = Some TargetBall" "pan c = \<lparr>x = 50, y = 0\<rparr>"
    unfolding c_def
    by (simp_all add: handleMouseDown_def Let_def reset_Kinematics_start Math_hypot_def getW2S_def)
       (simp_all add: DEFAULT_CONFIG_def mount_def)
  have s: "scale DEFAULT_CONFIG \<noteq> 0" "scale DEFAULT_CONFIG = 20"
    by (simp_all add: DEFAULT_CONFIG_def)
  from ball_drag [OF c(1,2) s(1), of "\<lparr>clientX = 133, clientY = - 25, deltaY = 0\<rparr>"
      "\<lparr>rectLeft = 10, rectTop = 20\<rparr>" Kinematics] c s
  show ?thesis
    unfolding c_def [symmetric] Let_def by (simp add: getS2W_def Math_round_def)
qed

section \<open>Reset\<close>

text \<open>
  C10. A reset in boat mode starts at (0, 0) with time 0 and the path [(0, 0)], and sets
  velocity and initial velocity to
  (boatSpeed cos (heading pi / 180) + riverVelocity, boatSpeed sin (heading pi / 180)),
  whatever p0 and v0 the configuration holds.
\<close>

theorem reset_boat:
  "observe (resetSimulation Boat config c) (stateRef (resetSimulation Boat config c)) =
     (0, \<lparr>x = 0, y = 0\<rparr>,
      \<lparr>x = boatSpeed config * cos (boatHeading config * pi / 180) + riverVelocity config,
       y = boatSpeed config * sin (boatHeading config * pi / 180)\<rparr>,
      \<lparr>x = boatSpeed config * cos (boatHeading config * pi / 180) + riverVelocity config,
       y = boatSpeed config * sin (boatHeading config * pi / 180)\<rparr>,
      a config, [\<lparr>x = 0, y = 0\<rparr>])"
  by (simp add: observe_def resetSimulation_def Let_def)

section \<open>The crossing scenario\<close>

lemma frames80_Suc: "frames80 (Suc n) = frames80 n @ [1000 + 80 * real n]"
  by (simp add: frames80_def)

lemma DEFAULT_boat:
  "riverWidth DEFAULT_CONFIG = 50" "boatSpeed DEFAULT_CONFIG = 4" "boatHeading DEFAULT_CONFIG = 90"
  "riverVelocity DEFAULT_CONFIG = 3"
  by (simp_all add: DEFAULT_CONFIG_def)

lemma crossing_before_bank:
  assumes "n \<le> 156"
  shows "t (live (frames Boat DEFAULT_CONFIG (frames80 (Suc n)) (resetSimulation Boat DEFAULT_CONFIG c0)))
           = 2 * real n / 25
       \<and> positionOf (frames Boat DEFAULT_CONFIG (frames80 (Suc n)) (resetSimulation Boat DEFAULT_CONFIG c0))
           = \<lparr>x = 6 * real n / 25, y = 8 * real n / 25\<rparr>
       \<and> lastFrameTime (frames Boat DEFAULT_CONFIG (frames80 (Suc n)) (resetSimulation Boat DEFAULT_CONFIG c0))
           = 1000 + 80 * real n"
  using assms
proof (induction n)
  case 0
  show ?case
    by (simp add: frames80_def frames_Cons frames_Nil animate_Boat_afloat reset_Boat_start
        DEFAULT_boat frameStep_def trig_90)
next
  case (Suc n)
  then have n: "real n \<le> 155"
    by simp
  define c where "c = frames Boat DEFAULT_CONFIG (frames80 (Suc n)) (resetSimulation Boat DEFAULT_CONFIG c0)"
  have c: "t (live c) = 2 * real n / 25" "positionOf c = \<lparr>x = 6 * real n / 25, y = 8 * real n / 25\<rparr>"
    "lastFrameTime c = 1000 + 80 * real n"
    using Suc by (simp_all add: c_def)
  have l: "1000 + 80 * real n \<noteq> 0"
    by (smt (verit) of_nat_0_le_iff)
  have step: "frameStep (1000 + 80 * real n) (1080 + 80 * real n) = 2 / 25"
    using l by (simp add: frameStep_def)
  have afloat: "y (positionOf c) < riverWidth DEFAULT_CONFIG"
    using n by (simp add: c DEFAULT_boat)
  have "frames Boat DEFAULT_CONFIG (frames80 (Suc (Suc n))) (resetSimulation Boat DEFAULT_CONFIG c0)
      = animate Boat DEFAULT_CONFIG (1000 + 80 * real (Suc n)) c"
    by (simp only: frames80_Suc [of "Suc n"] frames_snoc c_def)
  moreover have "t (live (animate Boat DEFAULT_CONFIG (1000 + 80 * real (Suc n)) c)) = 2 * real (Suc n) / 25"
    using animate_Boat_afloat(1) [OF afloat] by (simp add: c step) 
  moreover have "positionOf (animate Boat DEFAULT_CONFIG (1000 + 80 * real (Suc n)) c)
      = \<lparr>x = 6 * real (Suc n) / 25, y = 8 * real (Suc n) / 25\<rparr>"
    using animate_Boat_afloat(2) [OF afloat, of "1000 + 80 * real (Suc n)"] n
    by (simp add: c step DEFAULT_boat trig_90 Let_def)
  ultimately show ?case
    by simp
qed

text \<open>
  C5. The crossing scenario (boat speed 4, heading 90 degrees, river velocity 3, river
  width 50) run from the reset state with frames 80 ms apart: the boat is still afloat
  after 157 frames, the 158th lands it at x = 37.5 with velocity (0, 0), and the time is
  then 12.56, not 12.5: the landing frame advances x by the fraction of the step that
  reaches the bank and the time by the whole step.
\<close>

theorem crossing_overshoots_time:
  "t (live (frames Boat DEFAULT_CONFIG (frames80 158) (resetSimulation Boat DEFAULT_CONFIG (mount DEFAULT_CONFIG))))
     = 314 / 25
   \<and> positionOf (frames Boat DEFAULT_CONFIG (frames80 158) (resetSimulation Boat DEFAULT_CONFIG (mount DEFAULT_CONFIG)))
     = \<lparr>x = 75 / 2, y = 50\<rparr>
   \<and> velocity (live (frames Boat DEFAULT_CONFIG (frames80 158) (resetSimulation Boat DEFAULT_CONFIG (mount DEFAULT_CONFIG))))
     = \<lparr>x = 0, y = 0\<rparr>
   \<and> y (positionOf (frames Boat DEFAULT_CONFIG (frames80 157) (resetSimulation Boat DEFAULT_CONFIG (mount DEFAULT_CONFIG))))
     < 50"
proof -
  define c where "c = frames Boat DEFAULT_CONFIG (frames80 157) (resetSimulation Boat DEFAULT_CONFIG (mount DEFAULT_CONFIG))"
  have "t (live c) = 2 * real 156 / 25 \<and> positionOf c = \<lparr>x = 6 * real 156 / 25, y = 8 * real 156 / 25\<rparr>
      \<and> lastFrameTime c = 1000 + 80 * real 156"
    using crossing_before_bank [of 156 "mount DEFAULT_CONFIG"] by (simp add: c_def)
  then have c: "t (live c) = 312 / 25" "positionOf c = \<lparr>x = 936 / 25, y = 1248 / 25\<rparr>"
    "lastFrameTime c = 13480"
    by simp_all
  have afloat: "y (positionOf c) < riverWidth DEFAULT_CONFIG"
    by (simp add: c DEFAULT_boat)
  have "frames80 158 = frames80 157 @ [13560]"
    using frames80_Suc [of 157] by simp
  then have last: "frames Boat DEFAULT_CONFIG (frames80 158) (resetSimulation Boat DEFAULT_CONFIG (mount DEFAULT_CONFIG))
      = animate Boat DEFAULT_CONFIG 13560 c"
    by (simp only: frames_snoc c_def)
  have step: "frameStep 13480 13560 = 2 / 25"
    by (simp add: frameStep_def)
  show ?thesis
    unfolding last c_def [symmetric]
    using animate_Boat_afloat [OF afloat, of 13560]
    by (simp add: c step DEFAULT_boat trig_90 Let_def)
qed

section \<open>The predictive line of the boat scene\<close>

lemma predictiveLines_drawArrow [simp]: "predictiveLines (drawArrow origin dx dy label) = []"
  by (simp add: predictiveLines_def drawArrow_def)

lemma predictiveLines_append [simp]:
  "predictiveLines (ops @ ops') = predictiveLines ops @ predictiveLines ops'"
  by (simp add: predictiveLines_def)

lemma predictiveLines_Nil [simp]: "predictiveLines [] = []"
  by (simp add: predictiveLines_def)

lemma predictiveLines_Cons [simp]:
  "predictiveLines (op # ops) = (if isDashedLine op then op # predictiveLines ops else predictiveLines ops)"
  by (simp add: predictiveLines_def)

lemma predictiveLines_drawBoatScene:
  "predictiveLines (drawBoatScene width height cfg p c) =
     (if showTrace cfg \<and> boatSpeed cfg * sin (boatHeading cfg * pi / 180) > 1 / 10
         \<and> y (positionOf c) < riverWidth cfg - 1 / 100
      then [DashedLine (getW2S (x (positionOf c)) (y (positionOf c)) p (scale cfg))
              (getW2S (x (positionOf c)
                        + (boatSpeed cfg * cos (boatHeading cfg * pi / 180) + riverVelocity cfg)
                          * ((riverWidth cfg - y (positionOf c))
                             / (boatSpeed cfg * sin (boatHeading cfg * pi / 180))))
                 (riverWidth cfg) p (scale cfg))]
      else [])"
  by (simp add: drawBoatScene_def Let_def not_le)

text \<open>
  C9. The boat scene contains the predictive dashed line exactly when the trace
  is shown, vy = boatSpeed sin (heading pi / 180) exceeds 0.1, and the boat is more than
  0.01 short of the far bank (y < riverWidth - 0.01); the line then runs from the boat to
  the landing point (x + vx (riverWidth - y) / vy, riverWidth), both mapped to the screen.
\<close>

theorem predictive_line:
  "predictiveLines (drawBoatScene width height cfg p c) =
     (if showTrace cfg \<and> boatSpeed cfg * sin (boatHeading cfg * pi / 180) > 1 / 10
         \<and> y (positionOf c) < riverWidth cfg - 1 / 100
      then [DashedLine (getW2S (x (positionOf c)) (y (positionOf c)) p (scale cfg))
              (getW2S (x (positionOf c)
                        + (boatSpeed cfg * cos (boatHeading cfg * pi / 180) + riverVelocity cfg)
                          * ((riverWidth cfg - y (positionOf c))
                             / (boatSpeed cfg * sin (boatHeading cfg * pi / 180))))
                 (riverWidth cfg) p (scale cfg))]
      else [])"
  by (simp add: drawBoatScene_def Let_def not_le)

theorem predictive_line_witness:
  "predictiveLines (drawBoatScene 800 600 DEFAULT_CONFIG \<lparr>x = 250, y = 550\<rparr>
       (resetSimulation Boat DEFAULT_CONFIG (mount DEFAULT_CONFIG)))
     = [DashedLine \<lparr>x = 250, y = 550\<rparr> \<lparr>x = 1000, y = - 450\<rparr>]"
  using predictive_line [of 800 600 DEFAULT_CONFIG "\<lparr>x = 250, y = 550\<rparr>"
      "resetSimulation Boat DEFAULT_CONFIG (mount DEFAULT_CONFIG)"]
  by (simp add: reset_Boat_start DEFAULT_CONFIG_def getW2S_def)

text \<open>
  The claim as stated fails for a boat of speed 1 heading 179 degrees at the start: the
  trace is shown, vy is positive and the boat is short of the far bank, yet the scene has
  no predictive line, since vy is below 0.1.
\<close>

lemma sin_179: "0 < sin (179 * pi / 180)" "sin (179 * pi / 180) \<le> 1 / 10"
proof -
  have eq: "sin (179 * pi / 180) = sin (pi / 180)"
    using sin_pi_minus [of "pi / 180"] by (simp add: field_simps)
  have "0 < pi / 180" "pi / 180 < pi"
    by simp_all
  then show "0 < sin (179 * pi / 180)"
    unfolding eq by (rule sin_gt_zero)
  have "sin (pi / 180) \<le> pi / 180"
    by (rule sin_x_le_x) simp
  also have "\<dots> \<le> 1 / 10"
    using pi_less_4 by simp
  finally show "sin (179 * pi / 180) \<le> 1 / 10"
    unfolding eq .
qed

theorem predictive_line_counterexample:
  "showTrace shallowHeading
   \<and> boatSpeed shallowHeading * sin (boatHeading shallowHeading * pi / 180) > 0
   \<and> y (positionOf (resetSimulation Boat shallowHeading (mount shallowHeading))) < riverWidth shallowHeading
   \<and> predictiveLines (drawBoatScene 800 600 shallowHeading \<lparr>x = 250, y = 550\<rparr>
         (resetSimulation Boat shallowHeading (mount shallowHeading))) = []"
  using sin_179
  by (simp add: predictiveLines_drawBoatScene reset_Boat_start shallowHeading_def DEFAULT_CONFIG_def)

section \<open>The path\<close>

lemma sqrt_gt_tenth: "sqrt z > 1 / 10 \<longleftrightarrow> z > 1 / 100"
proof -
  have e: "sqrt (1 / 100) = 1 / 10"
    by (rule real_sqrt_unique) (simp_all add: power2_eq_square)
  have "(1 / 10 < sqrt z) = (sqrt (1 / 100) < sqrt z)"
    by (simp only: e)
  also have "\<dots> = (1 / 100 < z)"
    by (rule real_sqrt_less_iff)
  finally show ?thesis .
qed

lemma sqrt_gt_tenth': "1 < sqrt z * 10 \<longleftrightarrow> 1 < z * 100"
  using sqrt_gt_tenth [of z] by linarith

lemma distance_self [simp]: "distance u u = 0"
  by (simp add: distance_def)

lemma spaced_single [simp]: "spaced [u]"
  by (simp add: spaced_def)

lemma spaced_snoc:
  "ps \<noteq> [] \<Longrightarrow> spaced (ps @ [q]) \<longleftrightarrow> spaced ps \<and> distance q (last ps) \<ge> 1 / 10"
  by (simp add: spaced_def successively_append_iff)

lemma map_fun_upd_other: "r \<notin> set rs \<Longrightarrow> map (f(r := v)) rs = map f rs"
  by (induction rs) auto

lemma pathInv_reset: "pathInv (resetSimulation mode config c)"
  by (simp add: pathInv_def resetSimulation_def Let_def pathRefs_def pathOf_def live_def)

lemma stepBoat_effect:
  "\<exists>v. vecs (stepBoat config dt c) = (vecs c)(position (live c) := v)"
  "pathRefs (stepBoat config dt c) = pathRefs c"
  "position (live (stepBoat config dt c)) = position (live c)"
  "fresh (stepBoat config dt c) = fresh c"
  by (auto simp add: stepBoat_def Let_def pathRefs_def live_def)

lemma pathOf_stepBoat:
  assumes "position (live c) \<notin> set (pathRefs c)"
  shows "pathOf (stepBoat config dt c) = pathOf c"
  using assms stepBoat_effect(1) [of config dt c]
  by (auto simp add: pathOf_def stepBoat_effect(2) map_fun_upd_other)

lemma pathInv_stepBoat:
  assumes "pathInv c"
  shows "pathInv (stepBoat config dt c)"
proof (cases "position (live c) \<in> set (pathRefs c)")
  case True
  with assms have "pathRefs c = [position (live c)]"
    by (simp add: pathInv_def)
  with assms show ?thesis
    by (simp add: pathInv_def stepBoat_effect pathOf_def)
next
  case False
  with assms show ?thesis
    by (simp add: pathInv_def stepBoat_effect pathOf_stepBoat)
qed

lemma stepKinematics_effect:
  "\<exists>v. vecs (stepKinematics config dt c) = (vecs c)(fresh c := v)"
  "pathRefs (stepKinematics config dt c) = pathRefs c"
  "position (live (stepKinematics config dt c)) = fresh c"
  "fresh (stepKinematics config dt c) = fresh c + 1"
  by (auto simp add: stepKinematics_def Let_def pathRefs_def live_def)

lemma pathOf_stepKinematics:
  assumes "\<forall>r \<in> set (pathRefs c). r < fresh c"
  shows "pathOf (stepKinematics config dt c) = pathOf c"
proof -
  from assms have "fresh c \<notin> set (pathRefs c)"
    by auto
  then show ?thesis
    using stepKinematics_effect(1) [of config dt c]
    by (auto simp add: pathOf_def stepKinematics_effect(2) map_fun_upd_other)
qed

lemma pathInv_stepKinematics:
  assumes "pathInv c"
  shows "pathInv (stepKinematics config dt c)"
  using assms
  by (auto simp add: pathInv_def stepKinematics_effect pathOf_stepKinematics)

lemma pathInv_lastFrameTime [simp]: "pathInv (c\<lparr>lastFrameTime := l\<rparr>) = pathInv c"
  by (simp add: pathInv_def pathRefs_def pathOf_def live_def)

lemma pushPosition_effect:
  "pathRefs (pushPosition c) = pathRefs c @ [fresh c]"
  "position (live (pushPosition c)) = position (live c)"
  "fresh (pushPosition c) = fresh c + 1"
  by (simp_all add: pushPosition_def pathRefs_def live_def)

lemma pathOf_pushPosition:
  assumes "\<forall>r \<in> set (pathRefs c). r < fresh c"
  shows "pathOf (pushPosition c) = pathOf c @ [positionOf c]"
proof -
  from assms have "fresh c \<notin> set (pathRefs c)"
    by auto
  then have "map ((vecs c)(fresh c := positionOf c)) (pathRefs c) = map (vecs c) (pathRefs c)"
    by (rule map_fun_upd_other)
  then show ?thesis
    by (simp add: pathOf_def pushPosition_effect) (simp add: pushPosition_def)
qed

lemma recordPath_cases:
  assumes "pathInv c"
  shows "recordPath c = c \<and> distance (positionOf c) (last (pathOf c)) \<le> 1 / 10
       \<or> recordPath c = pushPosition c \<and> distance (positionOf c) (last (pathOf c)) > 1 / 10
           \<and> position (live c) \<notin> set (pathRefs c)"
proof -
  from assms have ne: "pathRefs c \<noteq> []"
    by (simp add: pathInv_def)
  then have l: "last (pathOf c) = vecs c (last (pathRefs c))"
    by (simp add: pathOf_def last_map)
  show ?thesis
  proof (cases "distance (positionOf c) (last (pathOf c)) > 1 / 10")
    case True
    have "position (live c) \<notin> set (pathRefs c)"
    proof
      assume "position (live c) \<in> set (pathRefs c)"
      with assms have "pathRefs c = [position (live c)]"
        by (simp add: pathInv_def)
      then have "last (pathOf c) = positionOf c"
        by (simp add: pathOf_def positionOf_def)
      with True show False
        by simp
    qed
    with True ne l show ?thesis
      by (simp add: recordPath_def)
  next
    case False
    with ne l show ?thesis
      by (simp add: recordPath_def)
  qed
qed

lemma pathInv_pushPosition:
  assumes "pathInv c" and "distance (positionOf c) (last (pathOf c)) > 1 / 10"
    and "position (live c) \<notin> set (pathRefs c)"
  shows "pathInv (pushPosition c)"
proof -
  from assms(1) have inv: "pathRefs c \<noteq> []" "\<forall>r \<in> set (pathRefs c). r < fresh c"
    "position (live c) < fresh c" "spaced (pathOf c)"
    by (simp_all add: pathInv_def)
  from inv(1) have "pathOf c \<noteq> []"
    by (simp add: pathOf_def)
  with inv(4) assms(2) have "spaced (pathOf c @ [positionOf c])"
    by (simp add: spaced_snoc)
  with inv assms(3) show ?thesis
    by (auto simp add: pathInv_def pushPosition_effect pathOf_pushPosition)
qed

lemma pathInv_recordPath:
  assumes "pathInv c"
  shows "pathInv (recordPath c)"
  using recordPath_cases [OF assms] assms pathInv_pushPosition by auto

lemma pathInv_publish:
  assumes "pathInv c"
  shows "pathInv (publish time c)"
  using assms
  by (auto simp add: pathInv_def pathOf_def publish_def less_Suc_eq live_def pathRefs_def)

lemma pathInv_animate:
  assumes "pathInv c"
  shows "pathInv (animate mode config time c)"
  using assms
  by (cases mode)
     (simp_all add: animate_def Let_def pathInv_publish pathInv_recordPath pathInv_stepBoat
       pathInv_stepKinematics)

lemma pathInv_configChanged:
  assumes "pathInv c"
  shows "pathInv (configChanged mode config isPlaying c)"
  using assms
  by (auto simp add: configChanged_def pathInv_reset)
     (simp_all add: pathInv_def pathRefs_def pathOf_def live_def)

lemma pathInv_handleMouseDown:
  assumes "pathInv c"
  shows "pathInv (handleMouseDown rect e mode config isPlaying c)"
  using assms
  by (cases rect) (simp_all add: handleMouseDown_def Let_def pathInv_def pathRefs_def pathOf_def live_def)

lemma pathInv_handleMouseUp:
  assumes "pathInv c"
  shows "pathInv (handleMouseUp c)"
  using assms
  by (simp add: handleMouseUp_def pathInv_def pathRefs_def pathOf_def live_def)

lemma pathInv_handleWheel:
  assumes "pathInv c"
  shows "pathInv (snd (handleWheel rect e config c))"
  using assms
  by (cases rect) (simp_all add: handleWheel_def Let_def pathInv_def pathRefs_def pathOf_def live_def)

lemma pathInv_handleMouseMove:
  assumes "pathInv c"
  shows "pathInv (snd (handleMouseMove rect e mode config c))"
  using assms
  by (cases rect) (simp_all add: handleMouseMove_def Let_def pathInv_def pathRefs_def pathOf_def live_def)

lemma pathInv_evolves:
  assumes "evolves c c'" and "pathInv c"
  shows "pathInv c'"
  using assms
  by (induction rule: evolves.induct)
     (simp_all add: pathInv_animate pathInv_reset pathInv_configChanged pathInv_handleMouseDown
       pathInv_handleMouseMove pathInv_handleMouseUp pathInv_handleWheel)


lemma pathOf_publish [simp]: "pathOf (publish time c) = pathOf c"
  by (simp add: pathOf_def)

lemma pathRefs_lastFrameTime_update [simp]: "pathRefs (c\<lparr>lastFrameTime := l\<rparr>) = pathRefs c"
  by (simp add: pathRefs_def)

lemma pathOf_lastFrameTime_update [simp]: "pathOf (c\<lparr>lastFrameTime := l\<rparr>) = pathOf c"
  by (simp add: pathOf_def)

lemma step_keeps_path:
  fixes mode config dt
  assumes "pathInv c"
  defines "c2 \<equiv> (case mode of Boat \<Rightarrow> stepBoat config dt c
                   | Kinematics \<Rightarrow> stepKinematics config dt c | Vectors \<Rightarrow> c)"
  shows "pathInv c2" and "pathRefs c2 = pathRefs c"
    and "position (live c2) \<notin> set (pathRefs c2) \<Longrightarrow> pathOf c2 = pathOf c"
proof -
  show "pathInv c2"
    using assms(1) unfolding c2_def
    by (cases mode) (simp_all add: pathInv_stepBoat pathInv_stepKinematics)
  show "pathRefs c2 = pathRefs c"
    unfolding c2_def by (cases mode) (simp_all add: stepBoat_effect stepKinematics_effect)
  show "pathOf c2 = pathOf c" if "position (live c2) \<notin> set (pathRefs c2)"
    using that assms(1) unfolding c2_def
    by (cases mode)
       (simp_all add: stepBoat_effect pathOf_stepBoat pathOf_stepKinematics pathInv_def)
qed

lemma animate_path:
  assumes "pathInv c"
  shows "pathRefs (animate mode config time c) = pathRefs c
       \<or> pathOf (animate mode config time c) = pathOf c @ [positionOf (animate mode config time c)]
           \<and> distance (positionOf (animate mode config time c)) (last (pathOf c)) > 1 / 10"
proof -
  define c2 where "c2 = (case mode of
      Boat \<Rightarrow> stepBoat config (frameStep (lastFrameTime c) time) (c\<lparr>lastFrameTime := time\<rparr>)
    | Kinematics \<Rightarrow> stepKinematics config (frameStep (lastFrameTime c) time) (c\<lparr>lastFrameTime := time\<rparr>)
    | Vectors \<Rightarrow> c\<lparr>lastFrameTime := time\<rparr>)"
  have an: "animate mode config time c = publish time (recordPath c2)"
    by (simp add: animate_def Let_def c2_def)
  have inv0: "pathInv (c\<lparr>lastFrameTime := time\<rparr>)"
    using assms by simp
  note k = step_keeps_path [OF inv0, where mode = mode and config = config
      and dt = "frameStep (lastFrameTime c) time", folded c2_def]
  from recordPath_cases [OF k(1)] show ?thesis
  proof
    assume "recordPath c2 = c2 \<and> distance (positionOf c2) (last (pathOf c2)) \<le> 1 / 10"
    then show ?thesis
      by (simp add: an k(2))
  next
    assume push: "recordPath c2 = pushPosition c2
      \<and> distance (positionOf c2) (last (pathOf c2)) > 1 / 10
      \<and> position (live c2) \<notin> set (pathRefs c2)"
    then have same: "pathOf c2 = pathOf c"
      by (simp add: k(3))
    from k(1) have "\<forall>r \<in> set (pathRefs c2). r < fresh c2"
      by (simp add: pathInv_def)
    then have "pathOf (pushPosition c2) = pathOf c2 @ [positionOf c2]"
      by (rule pathOf_pushPosition)
    with push same show ?thesis
      by (simp add: an)
  qed
qed

text \<open>
  What every history that starts with a reset keeps of the path: it is never empty and
  any two consecutive points of it are at least 0.1 apart. A frame either leaves the path
  array as it is (the points it refers to may still be written) or appends the current
  position to it, and appends only when that position is more than 0.1 away from the
  last point; a reset and a ball drag leave a path of one point.
\<close>

lemma path_kept:
  assumes "evolves (resetSimulation mode0 config0 c0) c"
  shows "pathOf c \<noteq> [] \<and> spaced (pathOf c)
       \<and> (\<forall>mode config time.
             pathRefs (animate mode config time c) = pathRefs c
           \<or> pathOf (animate mode config time c) = pathOf c @ [positionOf (animate mode config time c)]
               \<and> distance (positionOf (animate mode config time c)) (last (pathOf c)) > 1 / 10)
       \<and> (\<forall>mode config. length (pathOf (resetSimulation mode config c)) = 1)
       \<and> (\<forall>rect e mode config.
             pathRefs (snd (handleMouseMove rect e mode config c)) = pathRefs c
           \<or> length (pathOf (snd (handleMouseMove rect e mode config c))) = 1)"
proof -
  have inv: "pathInv c"
    using assms pathInv_reset by (rule pathInv_evolves)
  then have 1: "pathOf c \<noteq> []" "spaced (pathOf c)"
    by (simp_all add: pathInv_def pathOf_def)
  have 2: "length (pathOf (resetSimulation mode config c)) = 1" for mode config
    by (simp add: resetSimulation_def Let_def pathOf_def pathRefs_def live_def)
  have 3: "pathRefs (snd (handleMouseMove rect e mode config c)) = pathRefs c
           \<or> length (pathOf (snd (handleMouseMove rect e mode config c))) = 1" for rect e mode config
    by (cases rect) (simp_all add: handleMouseMove_def Let_def pathOf_def pathRefs_def live_def)
  show ?thesis
    using 1 2 3 animate_path [OF inv] by blast
qed

text \<open>
  In boat mode the reset stores one object as the position and as the first element of
  the path, and the boat branch of the frame writes that object in place. The last
  recorded point is then the position itself, the distance between them is 0, and no
  frame ever appends: the path is always the single current position.
\<close>

lemma aliased_reset:
  "pathRefs (resetSimulation Boat config c) = [position (live (resetSimulation Boat config c))]"
  by (simp add: resetSimulation_def Let_def pathRefs_def live_def)

lemma aliased_animate_Boat:
  assumes "pathRefs c = [position (live c)]"
  shows "pathRefs (animate Boat config time c) = [position (live (animate Boat config time c))]"
proof -
  define c2 where "c2 = stepBoat config (frameStep (lastFrameTime c) time) (c\<lparr>lastFrameTime := time\<rparr>)"
  have an: "animate Boat config time c = publish time (recordPath c2)"
    by (simp add: animate_def Let_def c2_def)
  have al: "pathRefs c2 = [position (live c2)]"
    using assms by (simp add: c2_def stepBoat_effect)
  then have "distance (positionOf c2) (vecs c2 (last (pathRefs c2))) = 0"
    by (simp add: positionOf_def)
  then have "recordPath c2 = c2"
    using al by (simp add: recordPath_def)
  with al show ?thesis
    by (simp add: an)
qed

lemma boat_path_is_position:
  "pathOf (frames Boat config stamps (resetSimulation Boat config c0))
     = [positionOf (frames Boat config stamps (resetSimulation Boat config c0))]"
proof -
  have "pathRefs (frames Boat config stamps c) = [position (live (frames Boat config stamps c))]"
    if "pathRefs c = [position (live c)]" for c
    using that
    by (induction stamps arbitrary: c) (simp_all add: frames_Nil frames_Cons aliased_animate_Boat)
  from this [OF aliased_reset] show ?thesis
    by (simp add: pathOf_def positionOf_def)
qed

text \<open>
  C6. The path is meant to be an append-only record of positions, a point being added
  when the position is more than 0.1 away from the last one. In boat mode it is not:
  after a reset and a first frame at 1000 ms the path is [(0, 0)]; a frame at 1100 ms
  moves the boat to (0.3, 0.4), which is 0.5 away from the recorded point, and the path
  is then [(0.3, 0.4)], neither the path before nor that path with the position appended.
  The recorded point has been overwritten and nothing has been appended.
\<close>

theorem boat_path_overwritten:
  "pathOf boatFirstFrame = [\<lparr>x = 0, y = 0\<rparr>]
   \<and> positionOf boatSecondFrame = \<lparr>x = 3 / 10, y = 4 / 10\<rparr>
   \<and> distance (positionOf boatSecondFrame) \<lparr>x = 0, y = 0\<rparr> > 1 / 10
   \<and> pathOf boatSecondFrame = [\<lparr>x = 3 / 10, y = 4 / 10\<rparr>]
   \<and> pathOf boatSecondFrame \<noteq> pathOf boatFirstFrame
   \<and> pathOf boatSecondFrame \<noteq> pathOf boatFirstFrame @ [positionOf boatSecondFrame]"
proof -
  define r where "r = resetSimulation Boat DEFAULT_CONFIG (mount DEFAULT_CONFIG)"
  have r: "positionOf r = \<lparr>x = 0, y = 0\<rparr>" "lastFrameTime r = 0"
    by (simp_all add: r_def reset_Boat_start)
  have f: "boatFirstFrame = frames Boat DEFAULT_CONFIG [1000] r"
    "boatSecondFrame = frames Boat DEFAULT_CONFIG [1000, 1100] r"
    by (simp_all add: boatFirstFrame_def boatSecondFrame_def frames_Cons frames_Nil r_def)
  have p1: "positionOf boatFirstFrame = \<lparr>x = 0, y = 0\<rparr>" "lastFrameTime boatFirstFrame = 1000"
    unfolding boatFirstFrame_def r_def [symmetric]
    by (simp_all add: animate_Boat_afloat r DEFAULT_boat frameStep_def trig_90)
  have p2: "positionOf boatSecondFrame = \<lparr>x = 3 / 10, y = 4 / 10\<rparr>"
    unfolding boatSecondFrame_def
    by (simp add: animate_Boat_afloat p1 DEFAULT_boat frameStep_def trig_90)
  have path1: "pathOf boatFirstFrame = [\<lparr>x = 0, y = 0\<rparr>]"
    unfolding f(1) r_def using boat_path_is_position [of DEFAULT_CONFIG "[1000]" "mount DEFAULT_CONFIG"]
    p1(1) by (simp add: f(1) r_def)
  have path2: "pathOf boatSecondFrame = [\<lparr>x = 3 / 10, y = 4 / 10\<rparr>]"
    unfolding f(2) r_def using boat_path_is_position [of DEFAULT_CONFIG "[1000, 1100]" "mount DEFAULT_CONFIG"]
    p2 by (simp add: f(2) r_def)
  have d: "distance \<lparr>x = 3 / 10, y = 4 / 10\<rparr> \<lparr>x = 0, y = 0\<rparr> > 1 / 10"
    by (simp add: distance_def sqrt_gt_tenth')
  show ?thesis
    using path1 path2 p2 d by simp
qed


section \<open>Publication to the host\<close>








lemma detached_lastFrameTime [simp]: "detached r (c\<lparr>lastFrameTime := l\<rparr>) = detached r c"
  by (simp add: detached_def)





















end
